theory Spec2Isabelle
  imports Complex_Main "HOL-Library.Char_ord" "HOL-Library.List_Lexorder" "HOL-Library.Sublist"
begin

section \<open>The LROC NAC driver of \<open>ale/drivers/lro_drivers.py\<close>\<close>

text \<open>
  The class \<open>LroLrocPds3LabelNaifSpiceDriver\<close> overrides a handful of properties of the
  generic pipeline (\<open>NaifSpice\<close>, \<open>Pds3Label\<close>, \<open>LineScanner\<close>, \<open>Driver\<close>). Each
  property becomes a function of the driver instance and of what the property observes
  outside the class when it is evaluated. Python floats are read as real numbers, so
  rounding is outside the model.
\<close>

subsection \<open>Data\<close>

text \<open>Values of a parsed PDS3 label, as far as the driver inspects them.\<close>

datatype pyval = PStr string | PInt int | PReal real | PSeq "pyval list"

text \<open>
  An exception that leaves a property: \<open>KeyError\<close> is what \<open>label[key]\<close> raises on a missing
  key, \<open>Raised\<close> stands for any exception raised by a collaborator.
\<close>

datatype error = KeyError string | Raised string

text \<open>
  The driver instance: its parsed label and the attribute \<open>_metakernel\<close>. The attribute is
  \<open>None\<close> while \<open>hasattr(self, '_metakernel')\<close> is false; \<open>Some None\<close> is the attribute
  holding Python's \<open>None\<close>.
\<close>

record driver =
  label :: "string \<rightharpoonup> pyval"
  metakernel_attr :: "string option option"

text \<open>
  What the properties read from outside the class at the moment they are evaluated: the
  inherited properties (an \<open>Inl\<close> when the inherited property raises), the SPICE
  clock conversion, the SPICE kernel pool and the result of \<open>glob(os.path.join(config.lro, '*.tm'))\<close>.
\<close>

record collab =
  super_instrument_id :: "error + pyval"
  super_exposure_duration :: "error + real"
  instrument_host_id :: "error + pyval"
  spacecraft_id :: "error + int"
  ikid :: "error + int"
  utc_start_time_year :: "error + int"
  scs2e :: "int \<Rightarrow> pyval \<Rightarrow> error + real"
  kernel_pool :: "string \<rightharpoonup> real list"
  glob_lro_tm :: "string list"

subsection \<open>Python library functions used by the driver\<close>

text \<open>\<open>a in b\<close> on strings: \<open>a\<close> occurs in \<open>b\<close> as a contiguous substring.\<close>

fun py_in :: "string \<Rightarrow> string \<Rightarrow> bool" where
  "py_in a [] = (a = [])"
| "py_in a (c # cs) = (prefix a (c # cs) \<or> py_in a cs)"

text \<open>\<open>os.path.basename\<close>: what follows the last slash.\<close>

definition basename :: "string \<Rightarrow> string" where
  "basename p = rev (takeWhile (\<lambda>c. c \<noteq> CHR ''/'') (rev p))"

text \<open>\<open>str\<close> on an integer: its decimal digits, with a minus sign when negative.\<close>

definition digit_char :: "nat \<Rightarrow> char" where
  "digit_char d = ''0123456789'' ! d"

function digits10 :: "nat \<Rightarrow> string" where
  "digits10 n = (if n < 10 then [digit_char n] else digits10 (n div 10) @ [digit_char (n mod 10)])"
  by pat_completeness auto
termination
  by (relation "measure (\<lambda>n. n)") auto

declare digits10.simps [simp del]

definition py_str :: "int \<Rightarrow> string" where
  "py_str i = (if i < 0 then CHR ''-'' # digits10 (nat (- i)) else digits10 (nat i))"

text \<open>\<open>label[key]\<close> raises \<open>KeyError\<close> on a missing key; \<open>label.get(key)\<close> is \<open>label self key\<close>.\<close>

definition label_item :: "driver \<Rightarrow> string \<Rightarrow> error + pyval" where
  "label_item self key = (case label self key of None \<Rightarrow> Inl (KeyError key) | Some v \<Rightarrow> Inr v)"

text \<open>
  \<open>spiceypy.gdpool(name, start, room)\<close>: at most \<open>room\<close> values of the kernel pool variable
  \<open>name\<close>, from index \<open>start\<close> on; it raises when the variable is not in the pool.
\<close>

definition gdpool :: "collab \<Rightarrow> string \<Rightarrow> nat \<Rightarrow> nat \<Rightarrow> error + real list" where
  "gdpool c name start room =
     (case kernel_pool c name of
        None \<Rightarrow> Inl (Raised ''SpiceyError'')
      | Some vs \<Rightarrow> Inr (take room (drop start vs)))"

subsection \<open>The properties of the driver\<close>

definition instrument_id :: "collab \<Rightarrow> driver \<Rightarrow> error + string option" where
  "instrument_id c self =
     (case super_instrument_id c of
        Inl e \<Rightarrow> Inl e
      | Inr instrument \<Rightarrow>
          (let frame_id = label self ''FRAME_ID'' in
           if instrument = PStr ''LROC'' \<and> frame_id = Some (PStr ''LEFT'')
             then Inr (Some ''LRO_LROCNACL'')
           else if instrument = PStr ''LROC'' \<and> frame_id = Some (PStr ''RIGHT'')
             then Inr (Some ''LRO_LROCNACR'')
           else Inr None))"

text \<open>
  The loop \<open>for mk in mks\<close> of \<open>metakernel\<close>: \<open>self.utc_start_time.year\<close> is evaluated in
  every iteration, and an exception there leaves the attribute as it is at that point.
\<close>

fun metakernel_loop :: "collab \<Rightarrow> string list \<Rightarrow> driver \<Rightarrow> (error + unit) \<times> driver" where
  "metakernel_loop c [] self = (Inr (), self)"
| "metakernel_loop c (mk # mks) self =
     (case utc_start_time_year c of
        Inl e \<Rightarrow> (Inl e, self)
      | Inr year \<Rightarrow>
          metakernel_loop c mks
            (if py_in (py_str year) (basename mk)
             then self\<lparr>metakernel_attr := Some (Some mk)\<rparr>
             else self))"

text \<open>
  \<open>metakernel\<close> returns its value and the driver, whose attribute it may have set.
  \<open>sorted\<close> on strings is \<open>sort\<close> in the lexicographic order of the characters' codes.
\<close>

definition metakernel :: "collab \<Rightarrow> driver \<Rightarrow> (error + string option) \<times> driver" where
  "metakernel c self =
     (let mks = sort (glob_lro_tm c) in
      case metakernel_attr self of
        None \<Rightarrow>
          (case metakernel_loop c mks (self\<lparr>metakernel_attr := Some None\<rparr>) of
             (Inl e, self') \<Rightarrow> (Inl e, self')
           | (Inr u, self') \<Rightarrow>
               (case metakernel_attr self' of
                  None \<Rightarrow> (Inl (Raised ''AttributeError''), self')
                | Some v \<Rightarrow> (Inr v, self')))
      | Some v \<Rightarrow> (Inr v, self))"

definition spacecraft_name :: "collab \<Rightarrow> driver \<Rightarrow> error + pyval" where
  "spacecraft_name c self = instrument_host_id c"

definition sensor_model_version :: "collab \<Rightarrow> driver \<Rightarrow> int" where
  "sensor_model_version c self = 2"

definition odtk :: "collab \<Rightarrow> driver \<Rightarrow> error + real list" where
  "odtk c self =
     (case ikid c of
        Inl e \<Rightarrow> Inl e
      | Inr k \<Rightarrow> gdpool c (''INS'' @ py_str k @ ''_OD_K'') 0 1)"

definition usgscsm_distortion_model ::
  "collab \<Rightarrow> driver \<Rightarrow> error + (string \<rightharpoonup> (string \<rightharpoonup> real list))" where
  "usgscsm_distortion_model c self =
     (case odtk c self of
        Inl e \<Rightarrow> Inl e
      | Inr coeffs \<Rightarrow> Inr [''lrolrocnac'' \<mapsto> [''coefficients'' \<mapsto> coeffs]])"

definition light_time_correction :: "collab \<Rightarrow> driver \<Rightarrow> string" where
  "light_time_correction c self = ''NONE''"

definition multipli_line_error :: "collab \<Rightarrow> driver \<Rightarrow> real" where
  "multipli_line_error c self = 0.0045"

definition additive_line_error :: "collab \<Rightarrow> driver \<Rightarrow> real" where
  "additive_line_error c self = 0.0"

definition constant_time_offset :: "collab \<Rightarrow> driver \<Rightarrow> real" where
  "constant_time_offset c self = 0.0"

definition additional_preroll :: "collab \<Rightarrow> driver \<Rightarrow> real" where
  "additional_preroll c self = 1024.0"

definition exposure_duration :: "collab \<Rightarrow> driver \<Rightarrow> error + real" where
  "exposure_duration c self =
     (case super_exposure_duration c of
        Inl e \<Rightarrow> Inl e
      | Inr b \<Rightarrow> Inr (b * (1 + multipli_line_error c self) + additive_line_error c self))"

definition ephemeris_start_time :: "collab \<Rightarrow> driver \<Rightarrow> error + real" where
  "ephemeris_start_time c self =
     (case spacecraft_id c of
        Inl e \<Rightarrow> Inl e
      | Inr sc \<Rightarrow>
          (case label_item self ''LRO:SPACECRAFT_CLOCK_PREROLL_COUNT'' of
             Inl e \<Rightarrow> Inl e
           | Inr count \<Rightarrow>
               (case scs2e c sc count of
                  Inl e \<Rightarrow> Inl e
                | Inr start_time \<Rightarrow>
                    (case exposure_duration c self of
                       Inl e \<Rightarrow> Inl e
                     | Inr d \<Rightarrow>
                         Inr (start_time + constant_time_offset c self
                              + additional_preroll c self * d)))))"

subsection \<open>Sample products\<close>

text \<open>A left-channel NAC product of 2009 and what its evaluation observes.\<close>

definition nacl_driver :: driver where
  "nacl_driver =
     \<lparr>label = [''FRAME_ID'' \<mapsto> PStr ''LEFT'',
               ''LRO:SPACECRAFT_CLOCK_PREROLL_COUNT'' \<mapsto> PStr ''1/270649237:07208''],
      metakernel_attr = None\<rparr>"

definition nac_collab :: collab where
  "nac_collab =
     \<lparr>super_instrument_id = Inr (PStr ''LROC''),
      super_exposure_duration = Inr 2,
      instrument_host_id = Inr (PStr ''LRO''),
      spacecraft_id = Inr (- 85),
      ikid = Inr (- 85600),
      utc_start_time_year = Inr 2009,
      scs2e = (\<lambda>sc count. Inr 100),
      kernel_pool = [''INS-85600_OD_K'' \<mapsto> [0.0000181]],
      glob_lro_tm = [''/mk/lro_2010_v01.tm'', ''/mk/lro_2009_v02.tm'', ''/mk/lro_2009_v01.tm'']\<rparr>"

text \<open>The same observations for a product whose generic instrument id is not \<open>LROC\<close>.\<close>

definition wac_collab :: collab where
  "wac_collab = nac_collab\<lparr>super_instrument_id := Inr (PStr ''LROC_WAC'')\<rparr>"

text \<open>The same observations for a product of 2015, a year no file name in the directory carries.\<close>

definition unmatched_collab :: collab where
  "unmatched_collab = nac_collab\<lparr>utc_start_time_year := Inr 2015\<rparr>"

text \<open>The same observations once the directory has been emptied.\<close>

definition empty_dir_collab :: collab where
  "empty_dir_collab = nac_collab\<lparr>glob_lro_tm := []\<rparr>"

text \<open>A product whose \<open>FRAME_ID\<close> is neither \<open>LEFT\<close> nor \<open>RIGHT\<close>.\<close>

definition centre_driver :: driver where
  "centre_driver = nacl_driver\<lparr>label := (label nacl_driver)(''FRAME_ID'' \<mapsto> PStr ''CENTRE'')\<rparr>"

subsection \<open>Repeated accesses\<close>

text \<open>
  The values of successive accesses to \<open>metakernel\<close> on one driver instance, each access
  with its own observations of the directory and of the start time.
\<close>

fun metakernel_accesses :: "collab list \<Rightarrow> driver \<Rightarrow> (error + string option) list" where
  "metakernel_accesses [] self = []"
| "metakernel_accesses (c # cs) self =
     (case metakernel c self of (r, self') \<Rightarrow> r # metakernel_accesses cs self')"

section \<open>Properties\<close>

subsection \<open>Instrument identifier\<close>

text \<open>
  Claim C1. When the generic instrument id is \<open>LROC\<close>, \<open>instrument_id\<close> is
  \<open>LRO_LROCNACL\<close> for the label's \<open>FRAME_ID\<close> equal to \<open>LEFT\<close>, \<open>LRO_LROCNACR\<close> for
  \<open>RIGHT\<close>, and Python's \<open>None\<close> for every other value of the field, a missing field
  included.
\<close>

theorem instrument_id_left_right:
  assumes "super_instrument_id c = Inr (PStr ''LROC'')"
  shows "instrument_id c self =
           Inr (if label self ''FRAME_ID'' = Some (PStr ''LEFT'') then Some ''LRO_LROCNACL''
                else if label self ''FRAME_ID'' = Some (PStr ''RIGHT'') then Some ''LRO_LROCNACR''
                else None)"
  using assms by (simp add: instrument_id_def)

theorem instrument_id_left_right_witness:
  "super_instrument_id nac_collab = Inr (PStr ''LROC'')
   \<and> instrument_id nac_collab nacl_driver = Inr (Some ''LRO_LROCNACL'')"
proof -
  have h: "super_instrument_id nac_collab = Inr (PStr ''LROC'')"
    by (simp add: nac_collab_def)
  have l: "label nacl_driver ''FRAME_ID'' = Some (PStr ''LEFT'')"
    by (simp add: nacl_driver_def)
  show ?thesis
    using h instrument_id_left_right [OF h, of nacl_driver] by (simp add: l)
qed

text \<open>
  Claim C10. A generic instrument id other than \<open>LROC\<close> gives \<open>None\<close>, whatever
  \<open>FRAME_ID\<close> holds, \<open>LEFT\<close> and \<open>RIGHT\<close> included.
\<close>

theorem instrument_id_requires_lroc:
  assumes "super_instrument_id c = Inr instrument" and "instrument \<noteq> PStr ''LROC''"
  shows "instrument_id c self = Inr None"
  using assms by (simp add: instrument_id_def)

theorem instrument_id_requires_lroc_witness:
  "super_instrument_id wac_collab = Inr (PStr ''LROC_WAC'')
   \<and> PStr ''LROC_WAC'' \<noteq> PStr ''LROC''
   \<and> label nacl_driver ''FRAME_ID'' = Some (PStr ''LEFT'')
   \<and> instrument_id wac_collab nacl_driver = Inr None"
proof -
  have h: "super_instrument_id wac_collab = Inr (PStr ''LROC_WAC'')"
    by (simp add: wac_collab_def)
  have n: "PStr ''LROC_WAC'' \<noteq> PStr ''LROC''"
    by simp
  have l: "label nacl_driver ''FRAME_ID'' = Some (PStr ''LEFT'')"
    by (simp add: nacl_driver_def)
  show ?thesis
    using h n l instrument_id_requires_lroc [OF h n, of nacl_driver] by simp
qed

subsection \<open>Fixed values and delegation\<close>

text \<open>
  Claim C6. \<open>light_time_correction\<close> is the string \<open>NONE\<close> for every driver and
  whatever is observed outside it.
\<close>

theorem light_time_correction_none: "light_time_correction c self = ''NONE''"
  by (simp add: light_time_correction_def)

text \<open>
  Claim C9. \<open>spacecraft_name\<close> is the inherited \<open>instrument_host_id\<close>, unchanged: the
  same value when that property returns one, the same exception when it raises.
\<close>

theorem spacecraft_name_delegates: "spacecraft_name c self = instrument_host_id c"
  by (simp add: spacecraft_name_def)

subsection \<open>Times\<close>

text \<open>
  Claim C4. When the inherited exposure duration is \<open>b\<close>, the driver's is
  \<open>b * (1 + 0.0045) + 0.0\<close>, which over the reals is \<open>b * 1.0045\<close>.
\<close>

theorem exposure_duration_scaled:
  assumes "super_exposure_duration c = Inr b"
  shows "exposure_duration c self = Inr (b * (1 + 0.0045) + 0.0)
         \<and> exposure_duration c self = Inr (b * 1.0045)"
  using assms
  by (simp add: exposure_duration_def multipli_line_error_def additive_line_error_def)

theorem exposure_duration_scaled_witness:
  "super_exposure_duration nac_collab = Inr 2
   \<and> exposure_duration nac_collab nacl_driver = Inr 2.009"
proof -
  have h: "super_exposure_duration nac_collab = Inr 2"
    by (simp add: nac_collab_def)
  show ?thesis
    using h exposure_duration_scaled [OF h, of nacl_driver] by simp
qed

text \<open>
  Claim C3. When the label holds \<open>LRO:SPACECRAFT_CLOCK_PREROLL_COUNT\<close>, \<open>scs2e\<close> converts
  it to the time \<open>t\<close> and the driver's exposure duration is \<open>d\<close>, then
  \<open>ephemeris_start_time\<close> is \<open>t + 0.0 + 1024.0 * d\<close>.
\<close>

theorem ephemeris_start_time_formula:
  assumes "spacecraft_id c = Inr sc"
    and "label self ''LRO:SPACECRAFT_CLOCK_PREROLL_COUNT'' = Some count"
    and "scs2e c sc count = Inr t"
    and "exposure_duration c self = Inr d"
  shows "ephemeris_start_time c self = Inr (t + 0.0 + 1024.0 * d)"
  using assms
  by (simp add: ephemeris_start_time_def label_item_def constant_time_offset_def
      additional_preroll_def)

theorem ephemeris_start_time_formula_witness:
  "spacecraft_id nac_collab = Inr (- 85)
   \<and> label nacl_driver ''LRO:SPACECRAFT_CLOCK_PREROLL_COUNT'' = Some (PStr ''1/270649237:07208'')
   \<and> scs2e nac_collab (- 85) (PStr ''1/270649237:07208'') = Inr 100
   \<and> exposure_duration nac_collab nacl_driver = Inr 2.009
   \<and> ephemeris_start_time nac_collab nacl_driver = Inr 2157.216"
proof -
  have a: "spacecraft_id nac_collab = Inr (- 85)"
    by (simp add: nac_collab_def)
  have b: "label nacl_driver ''LRO:SPACECRAFT_CLOCK_PREROLL_COUNT''
           = Some (PStr ''1/270649237:07208'')"
    by (simp add: nacl_driver_def)
  have c: "scs2e nac_collab (- 85) (PStr ''1/270649237:07208'') = Inr 100"
    by (simp add: nac_collab_def)
  have d: "exposure_duration nac_collab nacl_driver = Inr 2.009"
    by (simp add: exposure_duration_def multipli_line_error_def additive_line_error_def
        nac_collab_def)
  show ?thesis
    using a b c d ephemeris_start_time_formula [OF a b c d] by simp
qed

subsection \<open>Distortion model\<close>

text \<open>
  Claim C5. When the kernel pool holds the variable \<open>INS<ikid>_OD_K\<close>,
  \<open>usgscsm_distortion_model\<close> is a dict whose only key is \<open>lrolrocnac\<close>; its value is a
  dict whose only key is \<open>coefficients\<close>, and that key holds the list \<open>odtk\<close> read from the
  pool: one element, the first value of the variable.
\<close>

theorem usgscsm_distortion_model_shape:
  assumes "ikid c = Inr k"
    and "kernel_pool c (''INS'' @ py_str k @ ''_OD_K'') = Some vs"
    and "vs \<noteq> []"
  shows "\<exists>m inner coeffs.
           usgscsm_distortion_model c self = Inr m
           \<and> dom m = {''lrolrocnac''} \<and> m ''lrolrocnac'' = Some inner
           \<and> dom inner = {''coefficients''} \<and> inner ''coefficients'' = Some coeffs
           \<and> odtk c self = Inr coeffs \<and> coeffs = [hd vs]"
proof -
  have "take 1 vs = [hd vs]"
    using assms(3) by (cases vs) simp_all
  then have "odtk c self = Inr [hd vs]"
    using assms(1,2) by (simp add: odtk_def gdpool_def)
  then show ?thesis
    by (simp add: usgscsm_distortion_model_def)
qed

theorem usgscsm_distortion_model_shape_witness:
  "ikid nac_collab = Inr (- 85600)
   \<and> kernel_pool nac_collab (''INS'' @ py_str (- 85600) @ ''_OD_K'') = Some [0.0000181]
   \<and> (\<exists>m inner.
         usgscsm_distortion_model nac_collab nacl_driver = Inr m
         \<and> dom m = {''lrolrocnac''} \<and> m ''lrolrocnac'' = Some inner
         \<and> dom inner = {''coefficients''} \<and> inner ''coefficients'' = Some [0.0000181]
         \<and> odtk nac_collab nacl_driver = Inr [0.0000181])"
proof -
  have a: "ikid nac_collab = Inr (- 85600)"
    by (simp add: nac_collab_def)
  have s: "py_str (- 85600) = ''-85600''"
    by (simp add: py_str_def digits10.simps digit_char_def)
  have b: "kernel_pool nac_collab (''INS'' @ py_str (- 85600) @ ''_OD_K'') = Some [0.0000181]"
    by (simp add: s nac_collab_def)
  have n: "[0.0000181 :: real] \<noteq> []"
    by simp
  show ?thesis
    using a b usgscsm_distortion_model_shape [OF a b n, of nacl_driver] by simp
qed

subsection \<open>Metakernel\<close>

text \<open>Python's \<open>in\<close> on strings is the sublist relation.\<close>

lemma py_in_sublist: "py_in a b \<longleftrightarrow> sublist a b"
  by (induction b) (auto simp: sublist_Cons_right)

text \<open>A start year between 1000 and 9999 is written with four digits.\<close>

lemma py_str_four_digits:
  assumes "1000 \<le> y" and "y \<le> 9999"
  shows "length (py_str y) = 4"
proof -
  obtain k where k: "k = nat y" by simp
  have r: "1000 \<le> k" "k \<le> 9999" using assms k by auto
  have "length (digits10 k) = 4"
    using r
    by (subst digits10.simps, subst digits10.simps, subst digits10.simps, subst digits10.simps)
      auto
  then show ?thesis using assms k by (simp add: py_str_def)
qed

text \<open>
  When the start time is available the loop does not raise, and it leaves in the attribute
  the last path of the list whose base name contains the year.
\<close>

lemma metakernel_loop_result:
  assumes "utc_start_time_year c = Inr y"
  shows "metakernel_loop c mks self =
           (Inr (), case filter (\<lambda>mk. py_in (py_str y) (basename mk)) mks of
                      [] \<Rightarrow> self
                    | m # ms \<Rightarrow> self\<lparr>metakernel_attr := Some (Some (last (m # ms)))\<rparr>)"
  using assms
proof (induction mks arbitrary: self)
  case Nil
  then show ?case by simp
next
  case (Cons mk mks)
  then show ?case
    by (simp split: list.splits)
qed

lemma metakernel_first_access:
  assumes "metakernel_attr self = None" and "utc_start_time_year c = Inr y"
  shows "fst (metakernel c self) =
           Inr (case filter (\<lambda>mk. py_in (py_str y) (basename mk)) (sort (glob_lro_tm c)) of
                  [] \<Rightarrow> None
                | m # ms \<Rightarrow> Some (last (m # ms)))"
  using assms by (simp add: metakernel_def metakernel_loop_result split: list.splits)

lemma sorted_le_last:
  fixes xs :: "'a::linorder list"
  assumes "sorted xs" and "x \<in> set xs"
  shows "x \<le> last xs"
  using assms
proof (induction xs)
  case Nil
  then show ?case by simp
next
  case (Cons a xs)
  then show ?case by (cases "xs = []") auto
qed

lemma last_filter_sort:
  fixes xs :: "'a::linorder list"
  assumes "filter P (sort xs) = m # ms"
  shows "last (m # ms) \<in> set xs \<and> P (last (m # ms))
         \<and> (\<forall>x\<in>set xs. P x \<longrightarrow> x \<le> last (m # ms))"
proof -
  have mem: "last (m # ms) \<in> set (filter P (sort xs))"
    unfolding assms by (rule last_in_set) simp
  have srt: "sorted (m # ms)"
    using sorted_filter [of "\<lambda>x. x" "sort xs" P] assms by simp
  have "x \<le> last (m # ms)" if "x \<in> set xs" and "P x" for x
  proof -
    have "x \<in> set (filter P (sort xs))" using that by simp
    then have "x \<in> set (m # ms)" by (simp only: assms)
    with srt show ?thesis by (rule sorted_le_last)
  qed
  moreover have "last (m # ms) \<in> set xs" "P (last (m # ms))"
    using mem by simp_all
  ultimately show ?thesis by blast
qed

lemma takeWhile_all_append:
  assumes "\<forall>x\<in>set xs. P x"
  shows "takeWhile P (xs @ ys) = xs @ takeWhile P ys"
  using assms by (induction xs) simp_all

text \<open>The base name of a file name joined to a directory prefix is the file name.\<close>

lemma basename_join:
  assumes "CHR ''/'' \<notin> set n" and "pre = [] \<or> last pre = CHR ''/''"
  shows "basename (pre @ n) = n"
proof -
  have a: "takeWhile (\<lambda>c. c \<noteq> CHR ''/'') (rev pre) = []"
    using assms(2) by (cases pre rule: rev_cases) auto
  have b: "\<forall>x\<in>set (rev n). x \<noteq> CHR ''/''"
    using assms(1) by auto
  have "takeWhile (\<lambda>c. c \<noteq> CHR ''/'') (rev n @ rev pre) = rev n"
    using takeWhile_all_append [OF b, of "rev pre"] a by simp
  then show ?thesis by (simp add: basename_def)
qed

text \<open>Paths under one directory prefix are ordered as their file names are.\<close>

lemma append_le_cancel: "(d @ n \<le> d @ m) = (n \<le> (m::string))"
  by (induction d) simp_all

text \<open>The sample product on its first access: the later of the two files of 2009.\<close>

lemma py_str_2009: "py_str 2009 = ''2009''"
  by (simp add: py_str_def digits10.simps digit_char_def)

lemma metakernel_sample:
  "fst (metakernel nac_collab nacl_driver) = Inr (Some ''/mk/lro_2009_v02.tm'')"
proof -
  have a: "metakernel_attr nacl_driver = None"
    by (simp add: nacl_driver_def)
  have b: "utc_start_time_year nac_collab = Inr 2009"
    by (simp add: nac_collab_def)
  have g: "sort (glob_lro_tm nac_collab)
     = [''/mk/lro_2009_v01.tm'', ''/mk/lro_2009_v02.tm'', ''/mk/lro_2010_v01.tm'']"
    by (simp add: nac_collab_def)
  show ?thesis
    by (simp add: metakernel_first_access [OF a b] g py_str_2009 basename_def)
qed

text \<open>
  Claim C2. On the access that computes the attribute, with the start year \<open>y\<close> available
  and the directory listing made of the file names \<open>names\<close> under one directory prefix:
  if some name contains \<open>str(y)\<close>, the result is the path of the name that contains it and
  is last in lexicographic order among those that do; if none does, the result is \<open>None\<close>.
  For a year from 1000 to 9999, \<open>str(y)\<close> has four digits.
\<close>

theorem metakernel_latest_match:
  assumes "metakernel_attr self = None"
    and "utc_start_time_year c = Inr y"
    and "glob_lro_tm c = map (\<lambda>n. pre @ n) names"
    and "pre = [] \<or> last pre = CHR ''/''"
    and "\<forall>n\<in>set names. CHR ''/'' \<notin> set n"
  shows "(1000 \<le> y \<and> y \<le> 9999 \<longrightarrow> length (py_str y) = 4)
         \<and> (if \<exists>n\<in>set names. py_in (py_str y) n
            then \<exists>n\<in>set names. py_in (py_str y) n
                   \<and> (\<forall>m\<in>set names. py_in (py_str y) m \<longrightarrow> m \<le> n)
                   \<and> fst (metakernel c self) = Inr (Some (pre @ n))
            else fst (metakernel c self) = Inr None)"
proof (rule conjI)
  show "1000 \<le> y \<and> y \<le> 9999 \<longrightarrow> length (py_str y) = 4"
    by (simp add: py_str_four_digits)
next
  let ?P = "\<lambda>mk. py_in (py_str y) (basename mk)"
  let ?fs = "filter ?P (sort (glob_lro_tm c))"
  have bn: "basename (pre @ n) = n" if "n \<in> set names" for n
    using that assms(4,5) by (simp add: basename_join)
  show "if \<exists>n\<in>set names. py_in (py_str y) n
        then \<exists>n\<in>set names. py_in (py_str y) n
               \<and> (\<forall>m\<in>set names. py_in (py_str y) m \<longrightarrow> m \<le> n)
               \<and> fst (metakernel c self) = Inr (Some (pre @ n))
        else fst (metakernel c self) = Inr None"
  proof (cases "\<exists>n\<in>set names. py_in (py_str y) n")
    case False
    then have "?fs = []"
      using bn by (auto simp: assms(3) filter_empty_conv)
    then show ?thesis
      using False metakernel_first_access [OF assms(1,2)] by simp
  next
    case True
    then obtain n0 where n0: "n0 \<in> set names" "py_in (py_str y) n0" by blast
    then have "pre @ n0 \<in> set ?fs"
      using bn by (auto simp: assms(3))
    then obtain f fs where fs: "?fs = f # fs"
      by (cases ?fs) auto
    from last_filter_sort [OF fs]
    have l: "last (f # fs) \<in> set (glob_lro_tm c)" "?P (last (f # fs))"
      "\<forall>x\<in>set (glob_lro_tm c). ?P x \<longrightarrow> x \<le> last (f # fs)"
      by auto
    from l(1) obtain n where n: "n \<in> set names" "last (f # fs) = pre @ n"
      by (auto simp: assms(3))
    have pn: "py_in (py_str y) n"
      using l(2) n bn by simp
    have mx: "\<forall>m\<in>set names. py_in (py_str y) m \<longrightarrow> m \<le> n"
    proof (intro ballI impI)
      fix m assume m: "m \<in> set names" "py_in (py_str y) m"
      then have "pre @ m \<in> set (glob_lro_tm c)" "?P (pre @ m)"
        using bn by (auto simp: assms(3))
      with l(3) have "pre @ m \<le> pre @ n" using n(2) by auto
      then show "m \<le> n" by (simp add: append_le_cancel)
    qed
    have "fst (metakernel c self) = Inr (Some (pre @ n))"
      using metakernel_first_access [OF assms(1,2)] fs n(2) by simp
    with n(1) pn mx True show ?thesis by auto
  qed
qed

theorem metakernel_latest_match_witness:
  "metakernel_attr nacl_driver = None
   \<and> utc_start_time_year nac_collab = Inr 2009
   \<and> glob_lro_tm nac_collab
       = map (\<lambda>n. ''/mk/'' @ n) [''lro_2010_v01.tm'', ''lro_2009_v02.tm'', ''lro_2009_v01.tm'']
   \<and> last ''/mk/'' = CHR ''/''
   \<and> CHR ''/'' \<notin> set ''lro_2010_v01.tm''
   \<and> CHR ''/'' \<notin> set ''lro_2009_v02.tm''
   \<and> CHR ''/'' \<notin> set ''lro_2009_v01.tm''
   \<and> length (py_str 2009) = 4
   \<and> fst (metakernel nac_collab nacl_driver) = Inr (Some ''/mk/lro_2009_v02.tm'')"
proof -
  let ?names = "[''lro_2010_v01.tm'', ''lro_2009_v02.tm'', ''lro_2009_v01.tm'']"
  have a: "metakernel_attr nacl_driver = None"
    by (simp add: nacl_driver_def)
  have b: "utc_start_time_year nac_collab = Inr 2009"
    by (simp add: nac_collab_def)
  have c: "glob_lro_tm nac_collab = map (\<lambda>n. ''/mk/'' @ n) ?names"
    by (simp add: nac_collab_def)
  have d: "''/mk/'' = [] \<or> last ''/mk/'' = CHR ''/''"
    by simp
  have e: "\<forall>n\<in>set ?names. CHR ''/'' \<notin> set n"
    by simp
  have m: "\<not> py_in ''2009'' ''lro_2010_v01.tm''" "py_in ''2009'' ''lro_2009_v02.tm''"
    "py_in ''2009'' ''lro_2009_v01.tm''"
    by simp_all
  have o: "\<not> ''lro_2009_v02.tm'' \<le> ''lro_2009_v01.tm''"
    by simp
  show ?thesis
    using a b c e metakernel_latest_match [OF a b c d e] by (simp add: py_str_2009 m o)
qed

text \<open>
  Claim C7. Unresolved lookups give \<open>None\<close> and raise nothing of their own: when the
  inherited instrument id returns a value and \<open>FRAME_ID\<close> is neither \<open>LEFT\<close> nor
  \<open>RIGHT\<close>, \<open>instrument_id\<close> returns \<open>None\<close>; when no path is held in the attribute, the
  start year is available and no file name of the listing contains it, \<open>metakernel\<close>
  returns \<open>None\<close>.
\<close>

theorem unresolved_lookups_are_none:
  "(super_instrument_id c = Inr instrument
      \<longrightarrow> label self ''FRAME_ID'' \<noteq> Some (PStr ''LEFT'')
      \<longrightarrow> label self ''FRAME_ID'' \<noteq> Some (PStr ''RIGHT'')
      \<longrightarrow> instrument_id c self = Inr None)
   \<and> ((\<forall>p. metakernel_attr self \<noteq> Some (Some p))
      \<longrightarrow> utc_start_time_year c = Inr y
      \<longrightarrow> (\<forall>mk\<in>set (glob_lro_tm c). \<not> py_in (py_str y) (basename mk))
      \<longrightarrow> fst (metakernel c self) = Inr None)"
proof (intro conjI impI)
  assume "super_instrument_id c = Inr instrument"
    and "label self ''FRAME_ID'' \<noteq> Some (PStr ''LEFT'')"
    and "label self ''FRAME_ID'' \<noteq> Some (PStr ''RIGHT'')"
  then show "instrument_id c self = Inr None"
    by (simp add: instrument_id_def)
next
  assume n: "\<forall>p. metakernel_attr self \<noteq> Some (Some p)"
    and y: "utc_start_time_year c = Inr y"
    and u: "\<forall>mk\<in>set (glob_lro_tm c). \<not> py_in (py_str y) (basename mk)"
  show "fst (metakernel c self) = Inr None"
  proof (cases "metakernel_attr self")
    case None
    have "filter (\<lambda>mk. py_in (py_str y) (basename mk)) (sort (glob_lro_tm c)) = []"
      using u by (simp add: filter_empty_conv)
    then show ?thesis
      using metakernel_first_access [OF None y] by simp
  next
    case (Some v)
    with n have "v = None" by (cases v) auto
    with Some show ?thesis by (simp add: metakernel_def)
  qed
qed

theorem unresolved_lookups_are_none_witness:
  "super_instrument_id unmatched_collab = Inr (PStr ''LROC'')
   \<and> label centre_driver ''FRAME_ID'' = Some (PStr ''CENTRE'')
   \<and> instrument_id unmatched_collab centre_driver = Inr None
   \<and> metakernel_attr centre_driver = None
   \<and> utc_start_time_year unmatched_collab = Inr 2015
   \<and> glob_lro_tm unmatched_collab \<noteq> []
   \<and> filter (\<lambda>mk. py_in (py_str 2015) (basename mk)) (glob_lro_tm unmatched_collab) = []
   \<and> fst (metakernel unmatched_collab centre_driver) = Inr None"
proof -
  have a: "super_instrument_id unmatched_collab = Inr (PStr ''LROC'')"
    by (simp add: unmatched_collab_def nac_collab_def)
  have b: "label centre_driver ''FRAME_ID'' = Some (PStr ''CENTRE'')"
    by (simp add: centre_driver_def)
  have c: "\<forall>p. metakernel_attr centre_driver \<noteq> Some (Some p)"
    "metakernel_attr centre_driver = None"
    by (simp_all add: centre_driver_def nacl_driver_def)
  have d: "utc_start_time_year unmatched_collab = Inr 2015"
    by (simp add: unmatched_collab_def nac_collab_def)
  have y: "py_str 2015 = ''2015''"
    by (simp add: py_str_def digits10.simps digit_char_def)
  have e: "\<forall>mk\<in>set (glob_lro_tm unmatched_collab). \<not> py_in (py_str 2015) (basename mk)"
    "glob_lro_tm unmatched_collab \<noteq> []"
    by (simp_all add: y unmatched_collab_def nac_collab_def basename_def)
  have f: "filter (\<lambda>mk. py_in (py_str 2015) (basename mk)) (glob_lro_tm unmatched_collab) = []"
    using e(1) by (simp add: filter_empty_conv)
  show ?thesis
    using a b c d e f
      unresolved_lookups_are_none
        [where c = unmatched_collab and instrument = "PStr ''LROC''" and self = centre_driver
           and y = 2015]
    by simp
qed

text \<open>
  Once \<open>metakernel\<close> has returned a value the attribute holds it, and an access that
  finds the attribute returns it without reading anything else.
\<close>

lemma metakernel_sets_attr:
  assumes "fst (metakernel c self) = Inr v"
  shows "metakernel_attr (snd (metakernel c self)) = Some v"
  using assms
  by (auto simp: metakernel_def split: option.splits prod.splits sum.splits)

lemma metakernel_cached_once:
  assumes "metakernel_attr self = Some v"
  shows "metakernel c self = (Inr v, self)"
  using assms by (simp add: metakernel_def)

lemma metakernel_accesses_cached:
  assumes "metakernel_attr self = Some v"
  shows "metakernel_accesses cs self = replicate (length cs) (Inr v)"
  using assms by (induction cs) (simp_all add: metakernel_cached_once)

text \<open>
  Claim C8. When an access to \<open>metakernel\<close> returns the value \<open>v\<close>, every later access
  on the same driver returns \<open>v\<close>, whatever directory listing and start time the later
  accesses observe.
\<close>

theorem metakernel_cached:
  assumes "fst (metakernel c self) = Inr v"
  shows "metakernel_accesses cs (snd (metakernel c self)) = replicate (length cs) (Inr v)"
  using assms by (intro metakernel_accesses_cached metakernel_sets_attr)

theorem metakernel_cached_witness:
  "fst (metakernel nac_collab nacl_driver) = Inr (Some ''/mk/lro_2009_v02.tm'')
   \<and> metakernel_accesses [unmatched_collab, empty_dir_collab]
         (snd (metakernel nac_collab nacl_driver))
       = [Inr (Some ''/mk/lro_2009_v02.tm''), Inr (Some ''/mk/lro_2009_v02.tm'')]"
  using metakernel_sample
    metakernel_cached [OF metakernel_sample, of "[unmatched_collab, empty_dir_collab]"]
  by simp

end
